theory Spec2Isabelle
  imports Main
begin

section \<open>Exceptions and strings\<close>

text \<open>
  The exceptions of \<^verbatim>\<open>task.py\<close> that the command layer catches
  (\<^verbatim>\<open>except (ValueError, IndexError, KeyError)\<close>). Every \<^verbatim>\<open>raise\<close> of the
  core is a \<^verbatim>\<open>ValueError\<close>; the specification calls it \<^verbatim>\<open>ValidationError\<close>.
  A fallible call returns \<open>Inl\<close> of the exception or \<open>Inr\<close> of its value.
\<close>

datatype py_error = ValueError | IndexError | KeyError

text \<open>
  A Python \<^verbatim>\<open>str\<close> is a sequence of code points. The model reads a \<^typ>\<open>char\<close> as
  the code point of the same number, so a \<^typ>\<open>string\<close> is a Python string over
  U+0000 .. U+00FF and \<^const>\<open>length\<close> is \<^verbatim>\<open>len\<close>. In that range
  \<^verbatim>\<open>str.isdecimal\<close> holds of \<^verbatim>\<open>0\<close> .. \<^verbatim>\<open>9\<close> only, while \<^verbatim>\<open>str.isdigit\<close>
  (Numeric_Type Digit or Decimal) also holds of the superscript digits
  U+00B2, U+00B3 and U+00B9.
\<close>

definition isdecimal_char :: "char \<Rightarrow> bool" where
  "isdecimal_char c = (48 \<le> (of_char c :: nat) \<and> (of_char c :: nat) \<le> 57)"

definition isdigit_char :: "char \<Rightarrow> bool" where
  "isdigit_char c =
     (isdecimal_char c \<or> (of_char c :: nat) = 178 \<or> (of_char c :: nat) = 179
        \<or> (of_char c :: nat) = 185)"

text \<open>\<^verbatim>\<open>s.isdigit()\<close>: every character is a digit and there is at least one.\<close>

definition isdigit :: "string \<Rightarrow> bool" where
  "isdigit s = (s \<noteq> [] \<and> list_all isdigit_char s)"

section \<open>Field value types\<close>

datatype Name = MkName (name_value: string)

datatype Phone = MkPhone (phone_value: string)

text \<open>\<^verbatim>\<open>Phone.validate\<close>: \<^verbatim>\<open>value.isdigit() and len(value) == 10\<close>.\<close>

definition validate :: "string \<Rightarrow> bool" where
  "validate v = (isdigit v \<and> length v = 10)"

text \<open>\<^verbatim>\<open>Phone.__init__\<close>: raise unless the value validates, then store it.\<close>

definition Phone_init :: "string \<Rightarrow> py_error + Phone" where
  "Phone_init v = (if \<not> validate v then Inl ValueError else Inr (MkPhone v))"


section \<open>Dates and times\<close>

text \<open>
  The naive \<^verbatim>\<open>datetime\<close> of the standard library, in the proleptic Gregorian
  calendar: its constructor's range checks, \<^verbatim>\<open>toordinal\<close>, comparison,
  difference and \<^verbatim>\<open>replace(year=...)\<close>, following \<^verbatim>\<open>Lib/_pydatetime.py\<close>.
\<close>

record datetime =
  year :: int
  month :: int
  day :: int
  hour :: int
  minute :: int
  second :: int
  microsecond :: int

definition is_leap :: "int \<Rightarrow> bool" where
  "is_leap y = (y mod 4 = 0 \<and> (y mod 100 \<noteq> 0 \<or> y mod 400 = 0))"

text \<open>The table \<^verbatim>\<open>_DAYS_IN_MONTH\<close>, read for a month in 1 .. 12.\<close>

definition DAYS_IN_MONTH :: "int \<Rightarrow> int" where
  "DAYS_IN_MONTH m =
     (if m = 2 then 28 else if m = 4 \<or> m = 6 \<or> m = 9 \<or> m = 11 then 30 else 31)"

definition days_in_month :: "int \<Rightarrow> int \<Rightarrow> int" where
  "days_in_month y m = (if m = 2 \<and> is_leap y then 29 else DAYS_IN_MONTH m)"

definition days_before_year :: "int \<Rightarrow> int" where
  "days_before_year y =
     (y - 1) * 365 + (y - 1) div 4 - (y - 1) div 100 + (y - 1) div 400"

text \<open>The table \<^verbatim>\<open>_DAYS_BEFORE_MONTH\<close>: the days of the months before \<open>m\<close>.\<close>

fun DAYS_BEFORE_MONTH :: "nat \<Rightarrow> int" where
  "DAYS_BEFORE_MONTH 0 = 0"
| "DAYS_BEFORE_MONTH (Suc 0) = 0"
| "DAYS_BEFORE_MONTH (Suc (Suc k)) = DAYS_BEFORE_MONTH (Suc k) + DAYS_IN_MONTH (int (Suc k))"

definition days_before_month :: "int \<Rightarrow> int \<Rightarrow> int" where
  "days_before_month y m =
     DAYS_BEFORE_MONTH (nat m) + (if m > 2 \<and> is_leap y then 1 else 0)"

definition ymd2ord :: "int \<Rightarrow> int \<Rightarrow> int \<Rightarrow> int" where
  "ymd2ord y m d = days_before_year y + days_before_month y m + d"

definition toordinal :: "datetime \<Rightarrow> int" where
  "toordinal t = ymd2ord (year t) (month t) (day t)"

text \<open>
  The constructor: \<^verbatim>\<open>_check_date_fields\<close> and \<^verbatim>\<open>_check_time_fields\<close> raise
  \<^verbatim>\<open>ValueError\<close> for a field out of range (\<^verbatim>\<open>MINYEAR = 1\<close>, \<^verbatim>\<open>MAXYEAR = 9999\<close>).
\<close>

definition datetime_new ::
  "int \<Rightarrow> int \<Rightarrow> int \<Rightarrow> int \<Rightarrow> int \<Rightarrow> int \<Rightarrow> int \<Rightarrow> py_error + datetime" where
  "datetime_new y m d h mi s us =
     (if \<not> (1 \<le> y \<and> y \<le> 9999) then Inl ValueError
      else if \<not> (1 \<le> m \<and> m \<le> 12) then Inl ValueError
      else if \<not> (1 \<le> d \<and> d \<le> days_in_month y m) then Inl ValueError
      else if \<not> (0 \<le> h \<and> h \<le> 23) then Inl ValueError
      else if \<not> (0 \<le> mi \<and> mi \<le> 59) then Inl ValueError
      else if \<not> (0 \<le> s \<and> s \<le> 59) then Inl ValueError
      else if \<not> (0 \<le> us \<and> us \<le> 999999) then Inl ValueError
      else Inr \<lparr>year = y, month = m, day = d, hour = h, minute = mi, second = s,
                 microsecond = us\<rparr>)"

text \<open>\<^verbatim>\<open>t.replace(year=y)\<close> builds a new datetime through the constructor.\<close>

definition replace_year :: "datetime \<Rightarrow> int \<Rightarrow> py_error + datetime" where
  "replace_year t y =
     datetime_new y (month t) (day t) (hour t) (minute t) (second t) (microsecond t)"

text \<open>\<^verbatim>\<open>a < b\<close> compares the fields lexicographically, year first.\<close>

fun lex_less :: "int list \<Rightarrow> int list \<Rightarrow> bool" where
  "lex_less (x # xs) (y # ys) = (x < y \<or> (x = y \<and> lex_less xs ys))"
| "lex_less [] (y # ys) = True"
| "lex_less xs [] = False"

definition dt_fields :: "datetime \<Rightarrow> int list" where
  "dt_fields t = [year t, month t, day t, hour t, minute t, second t, microsecond t]"

definition dt_less :: "datetime \<Rightarrow> datetime \<Rightarrow> bool" where
  "dt_less a b = lex_less (dt_fields a) (dt_fields b)"

text \<open>
  \<^verbatim>\<open>(a - b).days\<close>: the difference is a \<^verbatim>\<open>timedelta\<close> normalised to
  \<^verbatim>\<open>0 <= seconds < 86400\<close> and \<^verbatim>\<open>0 <= microseconds < 1000000\<close>, so its \<^verbatim>\<open>days\<close>
  is the floor of the difference in days.
\<close>

definition day_seconds :: "datetime \<Rightarrow> int" where
  "day_seconds t = second t + minute t * 60 + hour t * 3600"

definition timedelta_days :: "datetime \<Rightarrow> datetime \<Rightarrow> int" where
  "timedelta_days a b =
     (((toordinal a - toordinal b) * 86400 + (day_seconds a - day_seconds b)) * 1000000
        + (microsecond a - microsecond b)) div 86400000000"

subsection \<open>Parsing and formatting with \<^verbatim>\<open>%d.%m.%Y\<close>\<close>

text \<open>
  \<^verbatim>\<open>datetime.strptime(value, "%d.%m.%Y")\<close> compiles the format to the regular
  expression
  \<^verbatim>\<open>(?P<d>3[0-1]|[1-2]\d|0[1-9]|[1-9]| [1-9])\.(?P<m>1[0-2]|0[1-9]|[1-9])\.(?P<Y>\d\d\d\d)\<close>,
  matches it at the start of the string and raises \<^verbatim>\<open>ValueError\<close> when there is
  no match or when unconverted data remains behind the match. A matcher below
  returns every way to match at the start of its input, in the order in which
  the backtracking matcher tries them, each with the text matched and the rest.
  Among the code points up to U+00FF, \<^verbatim>\<open>\d\<close> matches the decimal digits
  \<^verbatim>\<open>0\<close> .. \<^verbatim>\<open>9\<close> and nothing else.
\<close>

definition char_in :: "char \<Rightarrow> char \<Rightarrow> char \<Rightarrow> bool" where
  "char_in lo hi c =
     ((of_char lo :: nat) \<le> of_char c \<and> (of_char c :: nat) \<le> of_char hi)"

definition alt1 :: "(char \<Rightarrow> bool) \<Rightarrow> string \<Rightarrow> (string \<times> string) list" where
  "alt1 p s = (case s of a # r \<Rightarrow> if p a then [([a], r)] else [] | [] \<Rightarrow> [])"

definition alt2 ::
  "(char \<Rightarrow> bool) \<Rightarrow> (char \<Rightarrow> bool) \<Rightarrow> string \<Rightarrow> (string \<times> string) list" where
  "alt2 p q s =
     (case s of a # b # r \<Rightarrow> if p a \<and> q b then [([a, b], r)] else [] | _ \<Rightarrow> [])"

definition re_d :: "string \<Rightarrow> (string \<times> string) list" where
  "re_d s =
     alt2 (\<lambda>c. c = CHR ''3'') (char_in CHR ''0'' CHR ''1'') s
     @ alt2 (char_in CHR ''1'' CHR ''2'') isdecimal_char s
     @ alt2 (\<lambda>c. c = CHR ''0'') (char_in CHR ''1'' CHR ''9'') s
     @ alt1 (char_in CHR ''1'' CHR ''9'') s
     @ alt2 (\<lambda>c. c = CHR '' '') (char_in CHR ''1'' CHR ''9'') s"

definition re_m :: "string \<Rightarrow> (string \<times> string) list" where
  "re_m s =
     alt2 (\<lambda>c. c = CHR ''1'') (char_in CHR ''0'' CHR ''2'') s
     @ alt2 (\<lambda>c. c = CHR ''0'') (char_in CHR ''1'' CHR ''9'') s
     @ alt1 (char_in CHR ''1'' CHR ''9'') s"

definition re_Y :: "string \<Rightarrow> (string \<times> string) list" where
  "re_Y s =
     (case s of
        a # b # c # d # r \<Rightarrow>
          if isdecimal_char a \<and> isdecimal_char b \<and> isdecimal_char c \<and> isdecimal_char d
          then [([a, b, c, d], r)] else []
      | _ \<Rightarrow> [])"

definition re_dot :: "string \<Rightarrow> string list" where
  "re_dot s = (case s of c # r \<Rightarrow> if c = CHR ''.'' then [r] else [] | [] \<Rightarrow> [])"

definition regex_dmY :: "string \<Rightarrow> ((string \<times> string \<times> string) \<times> string) list" where
  "regex_dmY s =
     [((d, m, y), r5).
        (d, r1) \<leftarrow> re_d s, r2 \<leftarrow> re_dot r1, (m, r3) \<leftarrow> re_m r2, r4 \<leftarrow> re_dot r3,
        (y, r5) \<leftarrow> re_Y r4]"

text \<open>
  \<^verbatim>\<open>int(text)\<close> of a matched group: decimal digits, behind white space that
  \<^verbatim>\<open>int\<close> strips (the day \<^verbatim>\<open>" 5"\<close>).
\<close>

definition py_int :: "string \<Rightarrow> int" where
  "py_int s =
     foldl (\<lambda>n c. 10 * n + (int (of_char c) - 48)) 0 (dropWhile (\<lambda>c. c = CHR '' '') s)"

definition strptime_dmY :: "string \<Rightarrow> py_error + datetime" where
  "strptime_dmY s =
     (case regex_dmY s of
        [] \<Rightarrow> Inl ValueError
      | ((d, m, y), rest) # _ \<Rightarrow>
          if rest \<noteq> [] then Inl ValueError
          else datetime_new (py_int y) (py_int m) (py_int d) 0 0 0 0)"

text \<open>
  \<^verbatim>\<open>t.strftime('%d.%m.%Y')\<close>, as CPython gives it through the C library on
  Linux: day and month as two digits, the year as its decimal number with no
  padding. From the year 1000 on that is the four digits \<^verbatim>\<open>1000\<close> ..
  \<^verbatim>\<open>9999\<close>; the year 999 is formatted \<^verbatim>\<open>999\<close> and the year 1 is
  formatted \<^verbatim>\<open>1\<close>. \<open>zpad4\<close> is the year of four digits that the parser
  reads.
\<close>

definition digit_char :: "nat \<Rightarrow> char" where
  "digit_char n = char_of (48 + n mod 10)"

definition zpad2 :: "int \<Rightarrow> string" where
  "zpad2 n = [digit_char (nat n div 10), digit_char (nat n)]"


function dec_text :: "nat \<Rightarrow> string" where
  "dec_text n = (if n < 10 then [digit_char n] else dec_text (n div 10) @ [digit_char n])"
  by pat_completeness auto
termination
  by (relation "measure (\<lambda>n. n)") auto

declare dec_text.simps [simp del]

definition strftime_dmY :: "datetime \<Rightarrow> string" where
  "strftime_dmY t = zpad2 (day t) @ ''.'' @ zpad2 (month t) @ ''.'' @ dec_text (nat (year t))"


definition midnight :: "int \<Rightarrow> int \<Rightarrow> int \<Rightarrow> datetime" where
  "midnight y m d =
     \<lparr>year = y, month = m, day = d, hour = 0, minute = 0, second = 0, microsecond = 0\<rparr>"




datatype Birthday = MkBirthday (birthday_value: datetime)

text \<open>
  \<^verbatim>\<open>Birthday.__init__\<close>: the \<^verbatim>\<open>ValueError\<close> of \<^verbatim>\<open>strptime\<close> is caught and a
  \<^verbatim>\<open>ValueError\<close> with the message of the class is raised in its place.
\<close>

definition Birthday_init :: "string \<Rightarrow> py_error + Birthday" where
  "Birthday_init v =
     (case strptime_dmY v of Inl e \<Rightarrow> Inl ValueError | Inr t \<Rightarrow> Inr (MkBirthday t))"


section \<open>Record\<close>

text \<open>
  A method that mutates \<^verbatim>\<open>self\<close> takes the object and returns it updated. A
  method that can raise returns the exception or \<open>()\<close> together with the
  object as the call leaves it, so that what a failed call did to the object
  can be stated.
\<close>

record Record =
  name :: Name
  phones :: "Phone list"
  birthday :: "Birthday option"

text \<open>\<^verbatim>\<open>[Phone(phone) for phone in phones]\<close>: the first invalid value raises.\<close>

fun Phone_each :: "string list \<Rightarrow> py_error + Phone list" where
  "Phone_each [] = Inr []"
| "Phone_each (v # vs) =
     (case Phone_init v of
        Inl e \<Rightarrow> Inl e
      | Inr p \<Rightarrow> (case Phone_each vs of Inl e \<Rightarrow> Inl e | Inr ps \<Rightarrow> Inr (p # ps)))"

text \<open>
  \<^verbatim>\<open>Record.__init__(name, phones=None, birthday=None)\<close>: an absent or empty
  \<^verbatim>\<open>phones\<close> gives no phones, an absent or empty \<^verbatim>\<open>birthday\<close> gives none.
\<close>

definition Record_init :: "string \<Rightarrow> string list option \<Rightarrow> string option \<Rightarrow> py_error + Record" where
  "Record_init n ps b =
     (case (case ps of None \<Rightarrow> Inr [] | Some vs \<Rightarrow> if vs \<noteq> [] then Phone_each vs else Inr []) of
        Inl e \<Rightarrow> Inl e
      | Inr phs \<Rightarrow>
          (case (case b of
                   None \<Rightarrow> Inr None
                 | Some v \<Rightarrow>
                     if v \<noteq> [] then
                       (case Birthday_init v of Inl e \<Rightarrow> Inl e | Inr bd \<Rightarrow> Inr (Some bd))
                     else Inr None) of
             Inl e \<Rightarrow> Inl e
           | Inr bd \<Rightarrow> Inr \<lparr>name = MkName n, phones = phs, birthday = bd\<rparr>))"

text \<open>\<^verbatim>\<open>add_phone\<close>: \<^verbatim>\<open>self.phones.append(Phone(phone))\<close>.\<close>

definition add_phone :: "string \<Rightarrow> Record \<Rightarrow> (py_error + unit) \<times> Record" where
  "add_phone v r =
     (case Phone_init v of
        Inl e \<Rightarrow> (Inl e, r)
      | Inr p \<Rightarrow> (Inr (), r\<lparr>phones := phones r @ [p]\<rparr>))"

text \<open>
  \<^verbatim>\<open>remove_phone\<close>: the loop stops at the first phone whose value is the
  argument and removes that phone from the list.
\<close>

fun remove_first :: "string \<Rightarrow> Phone list \<Rightarrow> Phone list" where
  "remove_first v [] = []"
| "remove_first v (p # ps) = (if phone_value p = v then ps else p # remove_first v ps)"

definition remove_phone :: "string \<Rightarrow> Record \<Rightarrow> Record" where
  "remove_phone v r = r\<lparr>phones := remove_first v (phones r)\<rparr>"

text \<open>
  \<^verbatim>\<open>edit_phone\<close>: the loop stops at the first phone whose value is
  \<^verbatim>\<open>old_phone\<close> and assigns \<^verbatim>\<open>new_phone\<close> to its \<^verbatim>\<open>value\<close>.
\<close>

fun edit_first :: "string \<Rightarrow> string \<Rightarrow> Phone list \<Rightarrow> Phone list" where
  "edit_first old new [] = []"
| "edit_first old new (p # ps) =
     (if phone_value p = old then MkPhone new # ps else p # edit_first old new ps)"

definition edit_phone :: "string \<Rightarrow> string \<Rightarrow> Record \<Rightarrow> Record" where
  "edit_phone old new r = r\<lparr>phones := edit_first old new (phones r)\<rparr>"

text \<open>\<^verbatim>\<open>add_birthday\<close>: \<^verbatim>\<open>self.birthday = Birthday(birthday)\<close>.\<close>

definition add_birthday :: "string \<Rightarrow> Record \<Rightarrow> (py_error + unit) \<times> Record" where
  "add_birthday v r =
     (case Birthday_init v of
        Inl e \<Rightarrow> (Inl e, r)
      | Inr b \<Rightarrow> (Inr (), r\<lparr>birthday := Some b\<rparr>))"

section \<open>AddressBook\<close>

text \<open>
  \<^verbatim>\<open>self.records\<close> is a \<^verbatim>\<open>dict\<close> from the name to the record. A \<^verbatim>\<open>dict\<close> keeps
  its entries in the order in which their keys were first inserted, so it is a
  list of entries with distinct keys (\<open>is_dict\<close>): assigning to a key that
  is present replaces the value where it stands, assigning to a new key
  appends, and \<^verbatim>\<open>del\<close> removes the entry of the key, the only one that
  \<open>dict_del\<close> can remove from a list with distinct keys.
\<close>

record AddressBook =
  records :: "(string \<times> Record) list"

definition AddressBook_init :: AddressBook where
  "AddressBook_init = \<lparr>records = []\<rparr>"

fun dict_set :: "'k \<Rightarrow> 'v \<Rightarrow> ('k \<times> 'v) list \<Rightarrow> ('k \<times> 'v) list" where
  "dict_set k v [] = [(k, v)]"
| "dict_set k v (e # es) = (if fst e = k then (fst e, v) # es else e # dict_set k v es)"

definition dict_del :: "'k \<Rightarrow> ('k \<times> 'v) list \<Rightarrow> ('k \<times> 'v) list" where
  "dict_del k es = filter (\<lambda>e. fst e \<noteq> k) es"

definition dict_get :: "'k \<Rightarrow> ('k \<times> 'v) list \<Rightarrow> 'v option" where
  "dict_get k es = map_of es k"

definition dict_values :: "('k \<times> 'v) list \<Rightarrow> 'v list" where
  "dict_values es = map snd es"

definition is_dict :: "('k \<times> 'v) list \<Rightarrow> bool" where
  "is_dict es = distinct (map fst es)"

text \<open>\<^verbatim>\<open>add_record\<close>: \<^verbatim>\<open>self.records[record.name.value] = record\<close>.\<close>

definition add_record :: "Record \<Rightarrow> AddressBook \<Rightarrow> AddressBook" where
  "add_record r b = b\<lparr>records := dict_set (name_value (name r)) r (records b)\<rparr>"

text \<open>\<^verbatim>\<open>remove_record\<close>: \<^verbatim>\<open>del self.records[name]\<close> when the name is a key.\<close>

definition remove_record :: "string \<Rightarrow> AddressBook \<Rightarrow> AddressBook" where
  "remove_record n b =
     (if n \<in> set (map fst (records b)) then b\<lparr>records := dict_del n (records b)\<rparr> else b)"

text \<open>
  The queries return their result with the book as the call leaves it.
  \<^verbatim>\<open>find_record\<close> is \<^verbatim>\<open>self.records.get(name)\<close>, with \<open>None\<close> for Python's
  \<^verbatim>\<open>None\<close>; \<^verbatim>\<open>list_records\<close> is a new list of the values.
\<close>

definition find_record :: "string \<Rightarrow> AddressBook \<Rightarrow> Record option \<times> AddressBook" where
  "find_record n b = (dict_get n (records b), b)"

definition list_records :: "AddressBook \<Rightarrow> Record list \<times> AddressBook" where
  "list_records b = (dict_values (records b), b)"

text \<open>
  \<^verbatim>\<open>get_upcoming_birthdays(days)\<close>. The first argument is what
  \<^verbatim>\<open>datetime.now()\<close> returns in the call: the current date with the time of
  day. \<^verbatim>\<open>next_birthday\<close> is the body's computation for one record:
  the birthday moved to the current year, and to the year after when that
  datetime is before \<^verbatim>\<open>today\<close>; either \<^verbatim>\<open>replace\<close> may raise.
\<close>

definition next_birthday :: "datetime \<Rightarrow> Birthday \<Rightarrow> py_error + datetime" where
  "next_birthday today b =
     (case replace_year (birthday_value b) (year today) of
        Inl e \<Rightarrow> Inl e
      | Inr nb \<Rightarrow> if dt_less nb today then replace_year nb (year today + 1) else Inr nb)"

fun upcoming_loop ::
  "datetime \<Rightarrow> int \<Rightarrow> Record list \<Rightarrow> Record list \<Rightarrow> py_error + Record list" where
  "upcoming_loop today days [] acc = Inr acc"
| "upcoming_loop today days (r # rs) acc =
     (case birthday r of
        None \<Rightarrow> upcoming_loop today days rs acc
      | Some b \<Rightarrow>
          (case next_birthday today b of
             Inl e \<Rightarrow> Inl e
           | Inr nb \<Rightarrow>
               upcoming_loop today days rs
                 (if 0 \<le> timedelta_days nb today \<and> timedelta_days nb today < days
                  then acc @ [r] else acc)))"

definition get_upcoming_birthdays ::
  "datetime \<Rightarrow> int \<Rightarrow> AddressBook \<Rightarrow> (py_error + Record list) \<times> AddressBook" where
  "get_upcoming_birthdays now days b =
     (upcoming_loop now days (dict_values (records b)) [], b)"


section \<open>Phone numbers\<close>

lemma decimal_is_digit: "isdecimal_char c \<Longrightarrow> isdigit_char c"
  by (simp add: isdigit_char_def)

lemma validate_iff: "validate s = (length s = 10 \<and> list_all isdigit_char s)"
  by (auto simp: validate_def isdigit_def)

text \<open>
  C2, as the code has it. \<^verbatim>\<open>Phone(s)\<close> succeeds with \<^verbatim>\<open>.value == s\<close> exactly when
  \<open>s\<close> has 10 characters and each of them is a digit for \<^verbatim>\<open>str.isdigit\<close>; it
  raises \<^verbatim>\<open>ValueError\<close> for every other string. Every decimal digit is such a
  digit, so a string of 10 decimal digits is accepted; the digits of
  \<^verbatim>\<open>str.isdigit\<close> that are not decimal digits are accepted as well.
\<close>

theorem Phone_init_isdigit:
  "(length s = 10 \<and> list_all isdigit_char s \<longrightarrow>
      Phone_init s = Inr (MkPhone s) \<and> phone_value (MkPhone s) = s)
   \<and> (length s \<noteq> 10 \<or> \<not> list_all isdigit_char s \<longrightarrow> Phone_init s = Inl ValueError)
   \<and> (list_all isdecimal_char s \<longrightarrow> list_all isdigit_char s)"
  by (auto simp: Phone_init_def validate_iff list_all_iff decimal_is_digit)

theorem Phone_init_isdigit_witness:
  "Phone_init ''0501234567'' = Inr (MkPhone ''0501234567'')
   \<and> Phone_init ''12345'' = Inl ValueError
   \<and> Phone_init ''05012345a7'' = Inl ValueError"
proof -
  have a: "length ''0501234567'' = 10 \<and> list_all isdigit_char ''0501234567''"
    by (simp add: isdigit_char_def isdecimal_char_def)
  have b: "length ''12345'' \<noteq> 10 \<or> \<not> list_all isdigit_char ''12345''"
    by simp
  have c: "length ''05012345a7'' \<noteq> 10 \<or> \<not> list_all isdigit_char ''05012345a7''"
    by (simp add: isdigit_char_def isdecimal_char_def)
  show ?thesis
    using a b c Phone_init_isdigit [of "''0501234567''"] Phone_init_isdigit [of "''12345''"]
      Phone_init_isdigit [of "''05012345a7''"]
    by blast
qed

text \<open>
  C2 as the specification states it fails: the string of ten superscript twos
  (U+00B2) contains no decimal digit, and \<^verbatim>\<open>Phone\<close> accepts it.
\<close>

theorem Phone_init_superscript_counterexample:
  "Phone_init (replicate 10 (CHR 0xB2)) = Inr (MkPhone (replicate 10 (CHR 0xB2)))
   \<and> \<not> list_all isdecimal_char (replicate 10 (CHR 0xB2))"
  by (simp add: Phone_init_def validate_def isdigit_def isdigit_char_def isdecimal_char_def
      list_all_iff)

section \<open>Editing and removing phones\<close>

lemma edit_first_absent:
  "\<forall>p\<in>set ps. phone_value p \<noteq> old \<Longrightarrow> edit_first old new ps = ps"
  by (induction ps) auto

lemma edit_first_split:
  "\<forall>q\<in>set pre. phone_value q \<noteq> old \<Longrightarrow> phone_value p = old \<Longrightarrow>
     edit_first old new (pre @ p # post) = pre @ MkPhone new # post"
  by (induction pre) auto

lemma length_edit_first: "length (edit_first old new ps) = length ps"
  by (induction ps) auto

text \<open>
  C5. \<^verbatim>\<open>edit_phone(old_value, new_value)\<close> never raises. When no phone has the
  value \<open>old\<close> the record is unchanged. Otherwise the first phone with that
  value, the one behind a prefix \<open>pre\<close> that does not hold the value, gets the
  value \<open>new\<close>, whatever string \<open>new\<close> is, and every other phone, the
  name and the birthday stay as they are.
\<close>

theorem edit_phone_first_match:
  "((\<forall>p\<in>set (phones r). phone_value p \<noteq> old) \<longrightarrow> edit_phone old new r = r)
   \<and> (phones r = pre @ p # post \<and> (\<forall>q\<in>set pre. phone_value q \<noteq> old) \<and> phone_value p = old
        \<longrightarrow> edit_phone old new r = r\<lparr>phones := pre @ MkPhone new # post\<rparr>)
   \<and> name (edit_phone old new r) = name r
   \<and> birthday (edit_phone old new r) = birthday r
   \<and> length (phones (edit_phone old new r)) = length (phones r)"
  by (simp add: edit_phone_def edit_first_absent edit_first_split length_edit_first)

theorem edit_phone_first_match_witness:
  "edit_phone ''1111111111'' ''abc''
     \<lparr>name = MkName ''Ann'',
      phones = [MkPhone ''2222222222'', MkPhone ''1111111111'', MkPhone ''1111111111''],
      birthday = None\<rparr>
   = \<lparr>name = MkName ''Ann'',
      phones = [MkPhone ''2222222222'', MkPhone ''abc'', MkPhone ''1111111111''],
      birthday = None\<rparr>
   \<and> edit_phone ''3333333333'' ''abc''
     \<lparr>name = MkName ''Ann'', phones = [MkPhone ''2222222222''], birthday = None\<rparr>
   = \<lparr>name = MkName ''Ann'', phones = [MkPhone ''2222222222''], birthday = None\<rparr>"
  using edit_phone_first_match
      [of "\<lparr>name = MkName ''Ann'',
            phones = [MkPhone ''2222222222'', MkPhone ''1111111111'', MkPhone ''1111111111''],
            birthday = None\<rparr>"
          "''1111111111''" "''abc''" "[MkPhone ''2222222222'']" "MkPhone ''1111111111''"
          "[MkPhone ''1111111111'']"]
    edit_phone_first_match
      [of "\<lparr>name = MkName ''Ann'', phones = [MkPhone ''2222222222''], birthday = None\<rparr>"
          "''3333333333''" "''abc''"]
  by simp

lemma remove_first_absent:
  "\<forall>p\<in>set ps. phone_value p \<noteq> v \<Longrightarrow> remove_first v ps = ps"
  by (induction ps) auto

lemma remove_first_split:
  "\<forall>q\<in>set pre. phone_value q \<noteq> v \<Longrightarrow> phone_value p = v \<Longrightarrow>
     remove_first v (pre @ p # post) = pre @ post"
  by (induction pre) auto

lemma remove_first_append_present:
  "\<exists>p\<in>set ps. phone_value p = v \<Longrightarrow> remove_first v (ps @ qs) = remove_first v ps @ qs"
  by (induction ps) auto

text \<open>
  C6, as the code has it. For a valid \<open>v\<close>, \<^verbatim>\<open>add_phone(v)\<close> succeeds and
  appends the phone at the end; \<^verbatim>\<open>remove_phone(v)\<close> removes the first phone
  with the value \<open>v\<close> and is a no-op, not an error, when there is none. So
  \<^verbatim>\<open>add_phone(v)\<close> then \<^verbatim>\<open>remove_phone(v)\<close> gives the record back when it held
  no phone with the value \<open>v\<close> before; when it did, the earlier phone is the
  one removed and the new one stays at the end.
\<close>

theorem add_then_remove_phone:
  "validate v \<longrightarrow>
     fst (add_phone v r) = Inr ()
     \<and> phones (snd (add_phone v r)) = phones r @ [MkPhone v]
     \<and> ((\<forall>p\<in>set (phones r). phone_value p \<noteq> v) \<longrightarrow>
          remove_phone v (snd (add_phone v r)) = r \<and> remove_phone v r = r)
     \<and> ((\<exists>p\<in>set (phones r). phone_value p = v) \<longrightarrow>
          remove_phone v (snd (add_phone v r))
            = r\<lparr>phones := remove_first v (phones r) @ [MkPhone v]\<rparr>)
     \<and> (phones r = pre @ p # post \<and> (\<forall>q\<in>set pre. phone_value q \<noteq> v) \<and> phone_value p = v
          \<longrightarrow> remove_phone v r = r\<lparr>phones := pre @ post\<rparr>)"
  by (auto simp: add_phone_def Phone_init_def remove_phone_def remove_first_absent
      remove_first_split remove_first_append_present)

theorem add_then_remove_phone_witness:
  "validate ''3333333333''
   \<and> remove_phone ''3333333333'' (snd (add_phone ''3333333333''
        \<lparr>name = MkName ''Ann'', phones = [MkPhone ''1111111111'', MkPhone ''2222222222''],
         birthday = None\<rparr>))
     = \<lparr>name = MkName ''Ann'', phones = [MkPhone ''1111111111'', MkPhone ''2222222222''],
         birthday = None\<rparr>
   \<and> remove_phone ''2222222222''
        \<lparr>name = MkName ''Ann'', phones = [MkPhone ''1111111111'', MkPhone ''2222222222''],
         birthday = None\<rparr>
     = \<lparr>name = MkName ''Ann'', phones = [MkPhone ''1111111111''], birthday = None\<rparr>"
proof -
  have v: "validate ''3333333333''"
    by (simp add: validate_iff isdigit_char_def isdecimal_char_def)
  have w: "validate ''2222222222''"
    by (simp add: validate_iff isdigit_char_def isdecimal_char_def)
  show ?thesis
    using v
      add_then_remove_phone
        [of "''3333333333''"
            "\<lparr>name = MkName ''Ann'',
              phones = [MkPhone ''1111111111'', MkPhone ''2222222222''], birthday = None\<rparr>"]
      w
      add_then_remove_phone
        [of "''2222222222''"
            "\<lparr>name = MkName ''Ann'',
              phones = [MkPhone ''1111111111'', MkPhone ''2222222222''], birthday = None\<rparr>"
            "[MkPhone ''1111111111'']" "MkPhone ''2222222222''" "[]"]
    by simp
qed

text \<open>
  C6 as the specification states it fails: a record that holds the value
  already, in front of another phone, does not come back to its prior phone
  list.
\<close>

theorem add_then_remove_phone_counterexample:
  "validate ''1111111111''
   \<and> fst (add_phone ''1111111111''
        \<lparr>name = MkName ''Ann'', phones = [MkPhone ''1111111111'', MkPhone ''2222222222''],
         birthday = None\<rparr>) = Inr ()
   \<and> phones (remove_phone ''1111111111'' (snd (add_phone ''1111111111''
        \<lparr>name = MkName ''Ann'', phones = [MkPhone ''1111111111'', MkPhone ''2222222222''],
         birthday = None\<rparr>)))
     = [MkPhone ''2222222222'', MkPhone ''1111111111'']
   \<and> phones (remove_phone ''1111111111'' (snd (add_phone ''1111111111''
        \<lparr>name = MkName ''Ann'', phones = [MkPhone ''1111111111'', MkPhone ''2222222222''],
         birthday = None\<rparr>)))
     \<noteq> phones \<lparr>name = MkName ''Ann'',
         phones = [MkPhone ''1111111111'', MkPhone ''2222222222''], birthday = None\<rparr>"
  by (simp add: add_phone_def Phone_init_def validate_iff isdigit_char_def isdecimal_char_def
      remove_phone_def)


section \<open>The address book\<close>

lemma map_of_dict_set: "map_of (dict_set k v es) = (map_of es)(k \<mapsto> v)"
  by (induction es) (auto simp: fun_eq_iff)

lemma keys_dict_set: "set (map fst (dict_set k v es)) = insert k (set (map fst es))"
  by (induction es) auto

lemma is_dict_dict_set: "is_dict es \<Longrightarrow> is_dict (dict_set k v es)"
  unfolding is_dict_def
proof (induction es)
  case Nil
  then show ?case by simp
next
  case (Cons e es)
  then show ?case
    using keys_dict_set [of k v es] by auto
qed

lemma map_of_dict_del: "map_of (dict_del k es) = (map_of es)(k := None)"
  by (induction es) (auto simp: dict_del_def fun_eq_iff)

lemma keys_dict_del: "set (map fst (dict_del k es)) = set (map fst es) - {k}"
  by (auto simp: dict_del_def)

lemma is_dict_dict_del: "is_dict es \<Longrightarrow> is_dict (dict_del k es)"
  by (simp add: is_dict_def dict_del_def distinct_map_filter)

text \<open>
  C7. After \<^verbatim>\<open>add_record(r)\<close>, \<^verbatim>\<open>find_record\<close> with the name of \<open>r\<close> returns
  \<open>r\<close> itself, whatever record the book held under that name before (the old
  one is replaced, nothing of it is merged); every other name finds what it
  found before, the keys are the old keys and the name of \<open>r\<close>, and the keys
  stay distinct.
\<close>

theorem add_record_then_find:
  "fst (find_record (name_value (name r)) (add_record r b)) = Some r
   \<and> (n \<noteq> name_value (name r) \<longrightarrow>
        fst (find_record n (add_record r b)) = fst (find_record n b))
   \<and> set (map fst (records (add_record r b)))
        = insert (name_value (name r)) (set (map fst (records b)))
   \<and> (is_dict (records b) \<longrightarrow> is_dict (records (add_record r b)))"
proof -
  have "set (map fst (records (add_record r b)))
          = insert (name_value (name r)) (set (map fst (records b)))"
    unfolding add_record_def using keys_dict_set [of "name_value (name r)" r "records b"]
    by simp
  moreover have "is_dict (records b) \<longrightarrow> is_dict (records (add_record r b))"
    by (simp add: add_record_def is_dict_dict_set)
  moreover have "fst (find_record (name_value (name r)) (add_record r b)) = Some r"
    by (simp add: find_record_def add_record_def dict_get_def map_of_dict_set)
  moreover have "n \<noteq> name_value (name r) \<longrightarrow>
      fst (find_record n (add_record r b)) = fst (find_record n b)"
    by (simp add: find_record_def add_record_def dict_get_def map_of_dict_set)
  ultimately show ?thesis by blast
qed

theorem add_record_then_find_witness:
  "fst (find_record ''Alice''
      (add_record \<lparr>name = MkName ''Alice'', phones = [MkPhone ''0501234567''], birthday = None\<rparr>
         \<lparr>records =
            [(''Alice'', \<lparr>name = MkName ''Alice'', phones = [MkPhone ''0000000000''],
                          birthday = None\<rparr>),
             (''Bob'', \<lparr>name = MkName ''Bob'', phones = [], birthday = None\<rparr>)]\<rparr>))
     = Some \<lparr>name = MkName ''Alice'', phones = [MkPhone ''0501234567''], birthday = None\<rparr>
   \<and> fst (find_record ''Bob''
      (add_record \<lparr>name = MkName ''Alice'', phones = [MkPhone ''0501234567''], birthday = None\<rparr>
         \<lparr>records =
            [(''Alice'', \<lparr>name = MkName ''Alice'', phones = [MkPhone ''0000000000''],
                          birthday = None\<rparr>),
             (''Bob'', \<lparr>name = MkName ''Bob'', phones = [], birthday = None\<rparr>)]\<rparr>))
     = Some \<lparr>name = MkName ''Bob'', phones = [], birthday = None\<rparr>"
proof -
  have n: "''Bob'' \<noteq> name_value (name \<lparr>name = MkName ''Alice'',
      phones = [MkPhone ''0501234567''], birthday = None\<rparr>)"
    by simp
  have f: "fst (find_record ''Bob''
         \<lparr>records =
            [(''Alice'', \<lparr>name = MkName ''Alice'', phones = [MkPhone ''0000000000''],
                          birthday = None\<rparr>),
             (''Bob'', \<lparr>name = MkName ''Bob'', phones = [], birthday = None\<rparr>)]\<rparr>)
     = Some \<lparr>name = MkName ''Bob'', phones = [], birthday = None\<rparr>"
    by (simp add: find_record_def dict_get_def)
  show ?thesis
    using n f
      add_record_then_find
        [of "\<lparr>name = MkName ''Alice'', phones = [MkPhone ''0501234567''], birthday = None\<rparr>"
            "\<lparr>records =
              [(''Alice'', \<lparr>name = MkName ''Alice'', phones = [MkPhone ''0000000000''],
                            birthday = None\<rparr>),
               (''Bob'', \<lparr>name = MkName ''Bob'', phones = [], birthday = None\<rparr>)]\<rparr>"
            "''Bob''"]
    by simp
qed

text \<open>
  C8. After \<^verbatim>\<open>remove_record(name)\<close>, \<^verbatim>\<open>find_record(name)\<close> returns \<open>None\<close>,
  whether the name was a key or not; when it was not, the book is unchanged;
  every other name finds what it found before, and the keys are the old keys
  without the name.
\<close>

theorem remove_record_then_find:
  "fst (find_record n (remove_record n b)) = None
   \<and> (n \<notin> set (map fst (records b)) \<longrightarrow> remove_record n b = b)
   \<and> (m \<noteq> n \<longrightarrow> fst (find_record m (remove_record n b)) = fst (find_record m b))
   \<and> set (map fst (records (remove_record n b))) = set (map fst (records b)) - {n}
   \<and> (is_dict (records b) \<longrightarrow> is_dict (records (remove_record n b)))"
proof -
  have absent: "n \<notin> set (map fst (records b)) \<Longrightarrow> map_of (records b) n = None"
    by (simp add: map_of_eq_None_iff)
  have "fst (find_record n (remove_record n b)) = None"
    using absent by (simp add: find_record_def remove_record_def dict_get_def map_of_dict_del)
  moreover have "n \<notin> set (map fst (records b)) \<longrightarrow> remove_record n b = b"
    by (simp add: remove_record_def)
  moreover have "m \<noteq> n \<longrightarrow> fst (find_record m (remove_record n b)) = fst (find_record m b)"
    by (simp add: find_record_def remove_record_def dict_get_def map_of_dict_del)
  moreover have "set (map fst (records (remove_record n b))) = set (map fst (records b)) - {n}"
    using keys_dict_del [of n "records b"] by (simp add: remove_record_def)
  moreover have "is_dict (records b) \<longrightarrow> is_dict (records (remove_record n b))"
    by (simp add: remove_record_def is_dict_dict_del)
  ultimately show ?thesis by blast
qed

theorem remove_record_then_find_witness:
  "fst (find_record ''Alice''
      (remove_record ''Alice''
         \<lparr>records =
            [(''Alice'', \<lparr>name = MkName ''Alice'', phones = [], birthday = None\<rparr>),
             (''Bob'', \<lparr>name = MkName ''Bob'', phones = [], birthday = None\<rparr>)]\<rparr>)) = None
   \<and> remove_record ''Carol''
         \<lparr>records =
            [(''Alice'', \<lparr>name = MkName ''Alice'', phones = [], birthday = None\<rparr>),
             (''Bob'', \<lparr>name = MkName ''Bob'', phones = [], birthday = None\<rparr>)]\<rparr>
     = \<lparr>records =
            [(''Alice'', \<lparr>name = MkName ''Alice'', phones = [], birthday = None\<rparr>),
             (''Bob'', \<lparr>name = MkName ''Bob'', phones = [], birthday = None\<rparr>)]\<rparr>"
proof -
  have a: "''Carol'' \<notin> set (map fst (records
         \<lparr>records =
            [(''Alice'', \<lparr>name = MkName ''Alice'', phones = [], birthday = None\<rparr>),
             (''Bob'', \<lparr>name = MkName ''Bob'', phones = [], birthday = None\<rparr>)]\<rparr>))"
    by simp
  show ?thesis
    using a
      remove_record_then_find
        [of "''Alice''"
            "\<lparr>records =
              [(''Alice'', \<lparr>name = MkName ''Alice'', phones = [], birthday = None\<rparr>),
               (''Bob'', \<lparr>name = MkName ''Bob'', phones = [], birthday = None\<rparr>)]\<rparr>"]
      remove_record_then_find
        [of "''Carol''"
            "\<lparr>records =
              [(''Alice'', \<lparr>name = MkName ''Alice'', phones = [], birthday = None\<rparr>),
               (''Bob'', \<lparr>name = MkName ''Bob'', phones = [], birthday = None\<rparr>)]\<rparr>"]
    by blast
qed

text \<open>
  C9. A call of \<^verbatim>\<open>add_phone\<close> or \<^verbatim>\<open>add_birthday\<close> that raises leaves the
  record exactly as it was: the field value is constructed, and validated,
  before the record is touched. \<^verbatim>\<open>add_phone\<close> raises exactly when the value does
  not validate, \<^verbatim>\<open>add_birthday\<close> exactly when \<^verbatim>\<open>Birthday\<close> raises.
\<close>

theorem failed_add_leaves_record:
  "(fst (add_phone v r) = Inl e \<longrightarrow> snd (add_phone v r) = r)
   \<and> (fst (add_birthday v r) = Inl e \<longrightarrow> snd (add_birthday v r) = r)
   \<and> (\<not> validate v \<longrightarrow> add_phone v r = (Inl ValueError, r))
   \<and> (Birthday_init v = Inl ValueError \<longrightarrow> add_birthday v r = (Inl ValueError, r))
   \<and> (validate v \<longrightarrow> fst (add_phone v r) = Inr ())
   \<and> (Birthday_init v = Inr d \<longrightarrow> fst (add_birthday v r) = Inr ())"
  by (auto simp: add_phone_def add_birthday_def Phone_init_def split: sum.splits)

theorem failed_add_leaves_record_witness:
  "add_phone ''12345''
       \<lparr>name = MkName ''Ann'', phones = [MkPhone ''1111111111''], birthday = None\<rparr>
     = (Inl ValueError,
        \<lparr>name = MkName ''Ann'', phones = [MkPhone ''1111111111''], birthday = None\<rparr>)
   \<and> add_birthday ''31.02.2024''
       \<lparr>name = MkName ''Ann'', phones = [MkPhone ''1111111111''], birthday = None\<rparr>
     = (Inl ValueError,
        \<lparr>name = MkName ''Ann'', phones = [MkPhone ''1111111111''], birthday = None\<rparr>)"
proof -
  have p: "\<not> validate ''12345''"
    by (simp add: validate_def)
  have b: "Birthday_init ''31.02.2024'' = Inl ValueError"
    by (simp add: Birthday_init_def strptime_dmY_def regex_dmY_def re_d_def re_m_def re_Y_def
        re_dot_def alt1_def alt2_def char_in_def isdecimal_char_def py_int_def datetime_new_def
        days_in_month_def DAYS_IN_MONTH_def is_leap_def)
  show ?thesis
    using p b
      failed_add_leaves_record
        [of "''12345''"
            "\<lparr>name = MkName ''Ann'', phones = [MkPhone ''1111111111''], birthday = None\<rparr>"]
      failed_add_leaves_record
        [of "''31.02.2024''"
            "\<lparr>name = MkName ''Ann'', phones = [MkPhone ''1111111111''], birthday = None\<rparr>"]
    by blast
qed

text \<open>
  C10. \<^verbatim>\<open>find_record\<close>, \<^verbatim>\<open>list_records\<close> and \<^verbatim>\<open>get_upcoming_birthdays\<close>
  leave the book as it was: the same entries in the same order, whatever they
  return, also when \<^verbatim>\<open>get_upcoming_birthdays\<close> raises.
\<close>

theorem queries_leave_book:
  "snd (find_record n b) = b \<and> snd (list_records b) = b
   \<and> snd (get_upcoming_birthdays now days b) = b"
  by (simp add: find_record_def list_records_def get_upcoming_birthdays_def)

section \<open>Upcoming birthdays\<close>

lemma datetime_new_error: "datetime_new y m d h mi s us = Inl e \<Longrightarrow> e = ValueError"
  by (simp add: datetime_new_def split: if_splits)

lemma next_birthday_error: "next_birthday today b = Inl e \<Longrightarrow> e = ValueError"
  by (auto simp: next_birthday_def replace_year_def split: sum.splits if_splits
      dest: datetime_new_error)

lemma leap_day_replace_year:
  "month t = 2 \<Longrightarrow> day t = 29 \<Longrightarrow> \<not> is_leap y \<Longrightarrow> replace_year t y = Inl ValueError"
  by (simp add: replace_year_def datetime_new_def days_in_month_def DAYS_IN_MONTH_def)

lemma leap_day_next_birthday:
  "month (birthday_value b) = 2 \<Longrightarrow> day (birthday_value b) = 29 \<Longrightarrow> \<not> is_leap (year today)
     \<Longrightarrow> next_birthday today b = Inl ValueError"
  by (simp add: next_birthday_def leap_day_replace_year)

lemma leap_day_upcoming_loop:
  "r \<in> set rs \<Longrightarrow> birthday r = Some b \<Longrightarrow> month (birthday_value b) = 2 \<Longrightarrow>
   day (birthday_value b) = 29 \<Longrightarrow> \<not> is_leap (year today) \<Longrightarrow>
   upcoming_loop today days rs acc = Inl ValueError"
proof (induction rs arbitrary: acc)
  case Nil
  then show ?case by simp
next
  case (Cons x xs)
  show ?case
  proof (cases "x = r")
    case True
    with Cons.prems show ?thesis by (simp add: leap_day_next_birthday)
  next
    case False
    with Cons.prems have "r \<in> set xs" by simp
    then have ih: "\<And>acc. upcoming_loop today days xs acc = Inl ValueError"
      using Cons.IH Cons.prems by blast
    show ?thesis
      by (auto simp: ih split: option.splits sum.splits dest: next_birthday_error)
  qed
qed

text \<open>
  In a year that is not a leap year, one record with a birthday on February 29
  makes the whole call raise, wherever the record stands in the book.
\<close>

lemma leap_day_get_upcoming_birthdays:
  "(n, r) \<in> set (records bk) \<Longrightarrow> birthday r = Some b \<Longrightarrow> month (birthday_value b) = 2 \<Longrightarrow>
   day (birthday_value b) = 29 \<Longrightarrow> \<not> is_leap (year now) \<Longrightarrow>
   fst (get_upcoming_birthdays now days bk) = Inl ValueError"
  unfolding get_upcoming_birthdays_def dict_values_def
  using leap_day_upcoming_loop [of r "map snd (records bk)" b now days "[]"]
  by force

lemmas evaluate_birthdays =
  Record_init_def Birthday_init_def strptime_dmY_def regex_dmY_def re_d_def re_m_def
  re_Y_def re_dot_def alt1_def alt2_def char_in_def isdecimal_char_def py_int_def
  datetime_new_def days_in_month_def DAYS_IN_MONTH_def is_leap_def
  get_upcoming_birthdays_def add_record_def AddressBook_init_def dict_values_def
  next_birthday_def replace_year_def dt_less_def dt_fields_def timedelta_days_def toordinal_def
  ymd2ord_def days_before_year_def days_before_month_def day_seconds_def

text \<open>
  C4 fails on the code. The book holds Ann, born on 29.02.2000, and the call is
  made on 25.02.2023: \<^verbatim>\<open>replace(year=2023)\<close> raises \<^verbatim>\<open>ValueError\<close> and the call
  returns no result.
\<close>

theorem leap_day_birthday_raises:
  "Record_init ''Ann'' None (Some ''29.02.2000'')
     = Inr \<lparr>name = MkName ''Ann'', phones = [],
            birthday = Some (MkBirthday \<lparr>year = 2000, month = 2, day = 29, hour = 0,
              minute = 0, second = 0, microsecond = 0\<rparr>)\<rparr>
   \<and> fst (get_upcoming_birthdays
        \<lparr>year = 2023, month = 2, day = 25, hour = 0, minute = 0, second = 0, microsecond = 0\<rparr> 7
        (add_record
           \<lparr>name = MkName ''Ann'', phones = [],
            birthday = Some (MkBirthday \<lparr>year = 2000, month = 2, day = 29, hour = 0,
              minute = 0, second = 0, microsecond = 0\<rparr>)\<rparr>
           AddressBook_init))
     = Inl ValueError"
  by (simp add: evaluate_birthdays)

text \<open>
  C1 fails on the code. \<^verbatim>\<open>today\<close> is \<^verbatim>\<open>datetime.now()\<close>, with the time of day,
  and the birthday moved to the current year is a datetime at midnight. Bob is
  born on 10.03.1990 and the call is made on 10.03.2024 at 12:00: the birthday
  of that day is before \<^verbatim>\<open>today\<close>, is moved to 10.03.2025, and Bob is left out
  of the window of 7 days. The same call at 00:00:00 includes him.
\<close>

theorem birthday_today_skipped:
  "Record_init ''Bob'' None (Some ''10.03.1990'')
     = Inr \<lparr>name = MkName ''Bob'', phones = [],
            birthday = Some (MkBirthday \<lparr>year = 1990, month = 3, day = 10, hour = 0,
              minute = 0, second = 0, microsecond = 0\<rparr>)\<rparr>
   \<and> next_birthday
        \<lparr>year = 2024, month = 3, day = 10, hour = 12, minute = 0, second = 0, microsecond = 0\<rparr>
        (MkBirthday \<lparr>year = 1990, month = 3, day = 10, hour = 0,
              minute = 0, second = 0, microsecond = 0\<rparr>)
     = Inr \<lparr>year = 2025, month = 3, day = 10, hour = 0, minute = 0, second = 0, microsecond = 0\<rparr>
   \<and> fst (get_upcoming_birthdays
        \<lparr>year = 2024, month = 3, day = 10, hour = 12, minute = 0, second = 0, microsecond = 0\<rparr> 7
        (add_record
           \<lparr>name = MkName ''Bob'', phones = [],
            birthday = Some (MkBirthday \<lparr>year = 1990, month = 3, day = 10, hour = 0,
              minute = 0, second = 0, microsecond = 0\<rparr>)\<rparr>
           AddressBook_init))
     = Inr []
   \<and> fst (get_upcoming_birthdays
        \<lparr>year = 2024, month = 3, day = 10, hour = 0, minute = 0, second = 0, microsecond = 0\<rparr> 7
        (add_record
           \<lparr>name = MkName ''Bob'', phones = [],
            birthday = Some (MkBirthday \<lparr>year = 1990, month = 3, day = 10, hour = 0,
              minute = 0, second = 0, microsecond = 0\<rparr>)\<rparr>
           AddressBook_init))
     = Inr [\<lparr>name = MkName ''Bob'', phones = [],
            birthday = Some (MkBirthday \<lparr>year = 1990, month = 3, day = 10, hour = 0,
              minute = 0, second = 0, microsecond = 0\<rparr>)\<rparr>]"
  by (simp add: evaluate_birthdays)

text \<open>
  The same time of day shortens every gap by one: on 10.03.2024 at 12:00 a
  birthday on 15.03 is 4 days and 12 hours away, \<^verbatim>\<open>.days\<close> is 4, and a window
  of 5 days includes it.
\<close>

lemma gap_is_floored:
  "map_sum id (\<lambda>nb. timedelta_days nb
        \<lparr>year = 2024, month = 3, day = 10, hour = 12, minute = 0, second = 0, microsecond = 0\<rparr>)
     (next_birthday
        \<lparr>year = 2024, month = 3, day = 10, hour = 12, minute = 0, second = 0, microsecond = 0\<rparr>
        (MkBirthday \<lparr>year = 1990, month = 3, day = 15, hour = 0,
              minute = 0, second = 0, microsecond = 0\<rparr>))
     = Inr 4
   \<and> fst (get_upcoming_birthdays
        \<lparr>year = 2024, month = 3, day = 10, hour = 12, minute = 0, second = 0, microsecond = 0\<rparr> 5
        (add_record
           \<lparr>name = MkName ''Bob'', phones = [],
            birthday = Some (MkBirthday \<lparr>year = 1990, month = 3, day = 15, hour = 0,
              minute = 0, second = 0, microsecond = 0\<rparr>)\<rparr>
           AddressBook_init))
     = Inr [\<lparr>name = MkName ''Bob'', phones = [],
            birthday = Some (MkBirthday \<lparr>year = 1990, month = 3, day = 15, hour = 0,
              minute = 0, second = 0, microsecond = 0\<rparr>)\<rparr>]"
  by (simp add: evaluate_birthdays)

section \<open>Birthday strings\<close>







































































lemmas evaluate_strftime =
  strftime_dmY_def midnight_def zpad2_def dec_text.simps digit_char_def char_of_def
  bit_Suc_0_iff

text \<open>
  The years before 1000 are formatted without padding: the year 999 as
  \<^verbatim>\<open>999\<close> and the year 1 as \<^verbatim>\<open>1\<close>.
\<close>

lemma strftime_small_years:
  "strftime_dmY (midnight 999 1 1) = ''01.01.999''
   \<and> strftime_dmY (midnight 1 1 1) = ''01.01.1''
   \<and> strftime_dmY (midnight 1990 3 15) = ''15.03.1990''"
  by (simp add: evaluate_strftime)



end
